theory Spec2Isabelle
  imports Main "HOL-Library.Multiset"
begin

section \<open>Python values used by chatbot_main.py\<close>

text \<open>
  A Python \<open>str\<close> is a sequence of Unicode code points and \<open>len\<close> counts code points,
  so a text is modelled as a list of code points. String literals of the source are
  ASCII and are written through \<open>lit\<close>.
\<close>

type_synonym pystr = "nat list"

definition lit :: "string \<Rightarrow> pystr" where
  "lit s = map of_char s"

text \<open>
  The characters that \<open>str.strip()\<close> without argument removes: the code points for
  which \<open>str.isspace\<close> holds.
\<close>

definition py_isspace :: "nat \<Rightarrow> bool" where
  "py_isspace c \<longleftrightarrow>
     (9 \<le> c \<and> c \<le> 13) \<or> (28 \<le> c \<and> c \<le> 32) \<or> c = 133 \<or> c = 160 \<or> c = 5760 \<or>
     (8192 \<le> c \<and> c \<le> 8202) \<or> c = 8232 \<or> c = 8233 \<or> c = 8239 \<or> c = 8287 \<or> c = 12288"

definition strip :: "pystr \<Rightarrow> pystr" where
  "strip s = rev (dropWhile py_isspace (rev (dropWhile py_isspace s)))"

text \<open>
  A slice bound of Python, for a sequence of length \<open>n\<close>: a negative bound counts from
  the end, and every bound is clamped into \<open>0..n\<close>.
\<close>

definition slice_index :: "nat \<Rightarrow> int \<Rightarrow> nat" where
  "slice_index n i = (if i < 0 then nat (max 0 (i + int n)) else min (nat i) n)"

text \<open>\<open>xs[i:j]\<close> and \<open>xs[i:]\<close>.\<close>

definition py_slice :: "'a list \<Rightarrow> int \<Rightarrow> int \<Rightarrow> 'a list" where
  "py_slice xs i j =
     take (slice_index (length xs) j - slice_index (length xs) i)
          (drop (slice_index (length xs) i) xs)"

definition py_slice_from :: "'a list \<Rightarrow> int \<Rightarrow> 'a list" where
  "py_slice_from xs i = drop (slice_index (length xs) i) xs"

text \<open>\<open>sep.join(xs)\<close>.\<close>

fun py_join :: "pystr \<Rightarrow> pystr list \<Rightarrow> pystr" where
  "py_join sep [] = []"
| "py_join sep [x] = x"
| "py_join sep (x # y # ys) = x @ sep @ py_join sep (y # ys)"

section \<open>The chunker\<close>

text \<open>
  \<^verbatim>\<open>
  def chunk_text(text, chunk_size=400, overlap=50):
      chunks = []
      start = 0
      while start < len(text):
          end = start + chunk_size
          chunks.append(text[start:end])
          start = end - overlap
      return [c.strip() for c in chunks if c.strip()]
  \<close>
  The loop need not terminate, so it is a partial function: \<open>None\<close> is a run of the
  loop that never leaves it. The loop state is \<open>start\<close> and \<open>chunks\<close>; \<open>chunk_size\<close>
  and \<open>overlap\<close> are Python integers of either sign.
\<close>

partial_function (option) chunk_loop ::
  "pystr \<Rightarrow> int \<Rightarrow> int \<Rightarrow> int \<Rightarrow> pystr list \<Rightarrow> pystr list option" where
  "chunk_loop text chunk_size overlap start chunks =
     (if start < int (length text)
      then chunk_loop text chunk_size overlap (start + chunk_size - overlap)
             (chunks @ [py_slice text start (start + chunk_size)])
      else Some chunks)"

declare chunk_loop.simps [code]

definition chunk_text :: "pystr \<Rightarrow> int \<Rightarrow> int \<Rightarrow> pystr list option" where
  "chunk_text text chunk_size overlap =
     map_option (\<lambda>chunks. map strip (filter (\<lambda>c. strip c \<noteq> []) chunks))
       (chunk_loop text chunk_size overlap 0 [])"

section \<open>The index and the libraries around it\<close>

text \<open>
  The module keeps two globals, \<open>texts\<close> (initially the empty list) and \<open>embeddings\<close>
  (initially \<open>None\<close>, afterwards a matrix: a list of rows).
\<close>

record 'v state =
  texts :: "pystr list"
  embeddings :: "'v list option"

definition init_state :: "'v state" where
  "init_state = \<lparr>texts = [], embeddings = None\<rparr>"

text \<open>
  A request to the chat-completion endpoint: the model name and the messages, each a
  role and a content.
\<close>

record request =
  model :: pystr
  messages :: "(pystr \<times> pystr) list"

text \<open>
  What the module imports and reads from its environment is a parameter of the model:
  \<^item> \<open>encode\<close>: the sentence embedder, which maps each input string to one row
    (\<open>embedder.encode(xs)\<close>, when it returns, is \<open>map encode xs\<close>);
  \<^item> \<open>encode_raises\<close>: the text of the exception that \<open>embedder.encode\<close> raises on the
    chunks of an upload (out of memory on a large batch, say), \<open>None\<close> when it returns;
  \<^item> \<open>cosine_similarity\<close>: the similarity of two rows, a value of a linear order
    (floating-point numbers without NaN);
  \<^item> \<open>argsort\<close>: numpy's \<open>ndarray.argsort\<close>, whose default sorting kind is not stable;
  \<^item> \<open>GROQ_API_KEY\<close>: the value of \<open>os.getenv("GROK_API_KEY")\<close>, \<open>None\<close> when unset;
  \<^item> \<open>groq_create\<close>: the chat-completion call under the given key, returning the
    reply's content (\<open>Inr\<close>) or the text of the exception it raised (\<open>Inl\<close>).
\<close>

record ('v, 's) env =
  encode :: "pystr \<Rightarrow> 'v"
  encode_raises :: "pystr list \<Rightarrow> pystr option"
  cosine_similarity :: "'v \<Rightarrow> 'v \<Rightarrow> 's"
  argsort :: "'s list \<Rightarrow> nat list"
  GROQ_API_KEY :: "pystr option"
  groq_create :: "pystr \<Rightarrow> request \<Rightarrow> pystr + pystr"

text \<open>
  What \<open>argsort\<close> promises on an array: a permutation of its indices along which the
  values ascend. Nothing is promised about the order of equal values.
\<close>

definition argsort_ok :: "('s::linorder list \<Rightarrow> nat list) \<Rightarrow> 's list \<Rightarrow> bool" where
  "argsort_ok f sims \<longleftrightarrow>
     mset (f sims) = mset [0..<length sims] \<and> sorted (map (\<lambda>i. sims ! i) (f sims))"

text \<open>A stable argsort, as numpy's insertion sort on short arrays is.\<close>

definition stable_argsort :: "'s::linorder list \<Rightarrow> nat list" where
  "stable_argsort sims = sort_key (\<lambda>i. sims ! i) [0..<length sims]"

text \<open>
  \<^verbatim>\<open>
  def build_index(chunks):
      global embeddings, texts
      texts = chunks
      embeddings = embedder.encode(chunks, convert_to_numpy=True)
  \<close>
  \<open>texts\<close> is assigned before the embedder is called. When the embedder raises, the
  exception leaves \<open>build_index\<close> with \<open>texts\<close> assigned and \<open>embeddings\<close> as it was.
  \<open>build_index\<close> returns the exception that leaves it, if any, and the state it leaves.
\<close>

definition build_index ::
  "('v, 's) env \<Rightarrow> pystr list \<Rightarrow> 'v state \<Rightarrow> pystr option \<times> 'v state" where
  "build_index env chunks st =
     (let st1 = st\<lparr>texts := chunks\<rparr>
      in case encode_raises env chunks of
           Some e \<Rightarrow> (Some e, st1)
         | None \<Rightarrow> (None, st1\<lparr>embeddings := Some (map (encode env) chunks)\<rparr>))"

section \<open>Retrieval\<close>

datatype error = IndexError

definition error_text :: "error \<Rightarrow> pystr" where
  "error_text e = (case e of IndexError \<Rightarrow> lit ''list index out of range'')"

text \<open>
  \<^verbatim>\<open>
  def search(query, k=3):
      if embeddings is None or len(texts) == 0:
          return []
      q_emb = embedder.encode([query], convert_to_numpy=True)
      sims = cosine_similarity(q_emb, embeddings)[0]
      top_k = sims.argsort()[-k:][::-1]
      return [texts[i] for i in top_k]
  \<close>
  \<open>texts[i]\<close> raises IndexError for an index past the end of \<open>texts\<close>. The embedder's
  call on the one query is taken to return: \<open>search\<close> assigns no global, so an exception
  there changes the response of \<open>ask\<close> and not the index.
\<close>

definition search :: "('v, 's) env \<Rightarrow> 'v state \<Rightarrow> pystr \<Rightarrow> int \<Rightarrow> error + pystr list" where
  "search env st query k =
     (case embeddings st of
        None \<Rightarrow> Inr []
      | Some emb \<Rightarrow>
          if length (texts st) = 0 then Inr []
          else
            let q_emb = encode env query;
                sims = map (cosine_similarity env q_emb) emb;
                top_k = rev (py_slice_from (argsort env sims) (- k))
            in if list_all (\<lambda>i. i < length (texts st)) top_k
               then Inr (map (\<lambda>i. texts st ! i) top_k)
               else Inl IndexError)"

section \<open>Answer generation\<close>

text \<open>
  \<open>generate_answer\<close> returns the answer together with the requests it sent over the
  network, in order.
  \<^verbatim>\<open>
  def generate_answer(query, contexts):
      if not GROQ_API_KEY:
          return "Error: GROK_API_KEY is not set in your .env file."
      context_block = "\n".join(contexts)
      client = Groq(api_key=GROQ_API_KEY)
      try:
          response = client.chat.completions.create(model=..., messages=[...])
          return response.choices[0].message.content
      except Exception as e:
          return f"Groq API Error: {e}"
  \<close>
\<close>

definition no_key_message :: pystr where
  "no_key_message = lit ''Error: GROK_API_KEY is not set in your .env file.''"

definition generate_answer ::
  "('v, 's) env \<Rightarrow> pystr \<Rightarrow> pystr list \<Rightarrow> pystr \<times> request list" where
  "generate_answer env query contexts =
     (case GROQ_API_KEY env of
        None \<Rightarrow> (no_key_message, [])
      | Some key \<Rightarrow>
          if key = [] then (no_key_message, [])
          else
            let context_block = py_join [10] contexts;
                req = \<lparr>model = lit ''llama-3.3-70b-versatile'',
                       messages =
                         [(lit ''system'', lit ''Answer using provided context.''),
                          (lit ''user'',
                           lit ''Context:'' @ [10] @ context_block @ [10, 10] @
                           lit ''Question: '' @ query)]\<rparr>
            in (case groq_create env key req of
                  Inr content \<Rightarrow> (content, [req])
                | Inl e \<Rightarrow> (lit ''Groq API Error: '' @ e, [req])))"

section \<open>The HTTP handlers\<close>

text \<open>
  An uploaded file, as \<open>read_pdf\<close> sees it: either the PDF reader raises on it, or it has
  pages, each with its extracted text (\<open>None\<close> where \<open>extract_text\<close> returns nothing).
\<close>

datatype upload_file = Unreadable pystr | Pdf "pystr option list"

definition read_pdf :: "upload_file \<Rightarrow> pystr + pystr" where
  "read_pdf f =
     (case f of
        Unreadable e \<Rightarrow> Inl e
      | Pdf pages \<Rightarrow>
          Inr (py_join [10] (map (\<lambda>p. case p of None \<Rightarrow> [] | Some t \<Rightarrow> t) pages)))"

text \<open>The loop over the uploaded files; the first exception leaves it.\<close>

fun read_all :: "upload_file list \<Rightarrow> pystr list \<Rightarrow> pystr + pystr list" where
  "read_all [] all_text = Inr all_text"
| "read_all (f # fs) all_text =
     (case read_pdf f of
        Inl e \<Rightarrow> Inl e
      | Inr t \<Rightarrow> read_all fs (all_text @ [t]))"

text \<open>\<open>str(n)\<close> for a length.\<close>

fun str_nat :: "nat \<Rightarrow> pystr" where
  "str_nat n = (if n < 10 then [48 + n] else str_nat (n div 10) @ [48 + n mod 10])"

declare str_nat.simps [simp del]

definition no_text_message :: pystr where
  "no_text_message = lit ''No text extracted.''"

definition indexed_message :: "nat \<Rightarrow> pystr" where
  "indexed_message n = lit ''Indexed '' @ str_nat n @ lit '' chunks.''"

text \<open>
  \<^verbatim>\<open>
        full_text = "\n".join(all_text)
        chunks = chunk_text(full_text)
        if not chunks:
            return "No text extracted."
        build_index(chunks)
        return f"Indexed {len(chunks)} chunks."
    except Exception as e:
        return f"Error: {e}"
  \<close>
  The handler returns its response and the state it leaves; \<open>None\<close> is a handler that
  never returns. An exception of \<open>read_pdf\<close> or of \<open>build_index\<close> is caught by the
  handler and answered with its text; the state is the one the exception left.
\<close>

definition upload ::
  "('v, 's) env \<Rightarrow> 'v state \<Rightarrow> upload_file list \<Rightarrow> (pystr \<times> 'v state) option" where
  "upload env st files =
     (case read_all files [] of
        Inl e \<Rightarrow> Some (lit ''Error: '' @ e, st)
      | Inr all_text \<Rightarrow>
          (case chunk_text (py_join [10] all_text) 400 50 of
             None \<Rightarrow> None
           | Some chunks \<Rightarrow>
               if chunks = [] then Some (no_text_message, st)
               else
                 (case build_index env chunks st of
                    (Some e, st1) \<Rightarrow> Some (lit ''Error: '' @ e, st1)
                  | (None, st1) \<Rightarrow> Some (indexed_message (length chunks), st1))))"

text \<open>
  \<^verbatim>\<open>
  def ask(query):
      try:
          ctx = search(query, k=3)
          if not ctx:
              return "No documents indexed yet. Upload PDFs first."
          ans = generate_answer(query, ctx)
          return ans
      except Exception as e:
          return f"Error: {e}"
  \<close>
  \<open>ask\<close> assigns no global; it returns its response and the requests sent to the
  answer generator's endpoint.
\<close>

definition no_documents_message :: pystr where
  "no_documents_message = lit ''No documents indexed yet. Upload PDFs first.''"

definition ask :: "('v, 's) env \<Rightarrow> 'v state \<Rightarrow> pystr \<Rightarrow> pystr \<times> request list" where
  "ask env st query =
     (case search env st query 3 of
        Inl e \<Rightarrow> (lit ''Error: '' @ error_text e, [])
      | Inr ctx \<Rightarrow>
          if ctx = [] then (no_documents_message, [])
          else generate_answer env query ctx)"

text \<open>A run of the service: the requests it handles, one after the other.\<close>

datatype http_request = Upload "upload_file list" | Ask pystr

fun handle ::
  "('v, 's) env \<Rightarrow> 'v state \<Rightarrow> http_request \<Rightarrow> (pystr \<times> 'v state) option" where
  "handle env st (Upload files) = upload env st files"
| "handle env st (Ask query) = Some (fst (ask env st query), st)"

fun run :: "('v, 's) env \<Rightarrow> 'v state \<Rightarrow> http_request list \<Rightarrow> 'v state option" where
  "run env st [] = Some st"
| "run env st (r # rs) =
     (case handle env st r of
        None \<Rightarrow> None
      | Some (resp, st') \<Rightarrow> run env st' rs)"

text \<open>The invariant of the index: as many texts as rows, no rows counting as none.\<close>

definition index_inv :: "'v state \<Rightarrow> bool" where
  "index_inv st \<longleftrightarrow>
     length (texts st) = (case embeddings st of None \<Rightarrow> 0 | Some emb \<Rightarrow> length emb)"

text \<open>
  A sample environment for concrete runs: a row is the length of its text, the embedder
  always returns, similarity is the negated distance of two lengths, the argsort is the
  stable one, and no key is set.
\<close>

definition sample_env :: "(nat, int) env" where
  "sample_env =
     \<lparr>encode = length,
      encode_raises = (\<lambda>chunks. None),
      cosine_similarity = (\<lambda>a b. - \<bar>int a - int b\<bar>),
      argsort = stable_argsort,
      GROQ_API_KEY = None,
      groq_create = (\<lambda>key req. Inl (lit ''connection refused''))\<rparr>"

text \<open>The same environment with an embedder that runs out of memory on two chunks or more.\<close>

definition flaky_env :: "(nat, int) env" where
  "flaky_env =
     sample_env\<lparr>encode_raises :=
       (\<lambda>chunks. if 2 \<le> length chunks then Some (lit ''out of memory'') else None)\<rparr>"

section \<open>Properties of the chunker\<close>

lemma py_slice_whole: "int (length xs) \<le> j \<Longrightarrow> py_slice xs 0 j = xs"
  by (simp add: py_slice_def slice_index_def)

lemma py_slice_length:
  "0 \<le> i \<Longrightarrow> 0 \<le> w \<Longrightarrow> int (length (py_slice xs i (i + w))) \<le> w"
  by (auto simp add: py_slice_def slice_index_def)


lemma chunk_loop_exit:
  "\<not> start < int (length text) \<Longrightarrow> chunk_loop text chunk_size overlap start chunks = Some chunks"
  by (subst chunk_loop.simps) simp

lemma chunk_loop_step:
  "start < int (length text) \<Longrightarrow>
   chunk_loop text chunk_size overlap start chunks =
   chunk_loop text chunk_size overlap (start + chunk_size - overlap)
     (chunks @ [py_slice text start (start + chunk_size)])"
  by (subst chunk_loop.simps) simp

text \<open>
  With a window that advances, the loop ends, and what it returns beyond the chunks it
  started with are windows at or after its starting position.
\<close>

lemma chunk_loop_total:
  assumes "overlap < chunk_size"
  shows "\<exists>r. chunk_loop text chunk_size overlap start chunks = Some r \<and>
     set r \<subseteq> set chunks \<union> {py_slice text s (s + chunk_size) | s. start \<le> s}"
proof (induction "nat (int (length text) - start)" arbitrary: start chunks rule: less_induct)
  case less
  show ?case
  proof (cases "start < int (length text)")
    case False
    then show ?thesis by (simp add: chunk_loop_exit)
  next
    case True
    let ?s = "start + chunk_size - overlap"
    let ?c = "chunks @ [py_slice text start (start + chunk_size)]"
    from True assms have "nat (int (length text) - ?s) < nat (int (length text) - start)"
      by linarith
    from less[OF this, of ?c] obtain r where
      r: "chunk_loop text chunk_size overlap ?s ?c = Some r"
        "set r \<subseteq> set ?c \<union> {py_slice text s (s + chunk_size) | s. ?s \<le> s}"
      by blast
    from True r(1) have "chunk_loop text chunk_size overlap start chunks = Some r"
      by (simp add: chunk_loop_step)
    moreover have "set r \<subseteq> set chunks \<union> {py_slice text s (s + chunk_size) | s. start \<le> s}"
    proof
      fix c assume "c \<in> set r"
      with r(2) consider "c \<in> set chunks" | "c = py_slice text start (start + chunk_size)"
        | s where "?s \<le> s" "c = py_slice text s (s + chunk_size)"
        by auto
      then show "c \<in> set chunks \<union> {py_slice text s (s + chunk_size) | s. start \<le> s}"
      proof cases
        case 1 then show ?thesis by simp
      next
        case 2 then show ?thesis by auto
      next
        case 3
        with assms have "start \<le> s" by linarith
        with 3 show ?thesis by auto
      qed
    qed
    ultimately show ?thesis by blast
  qed
qed

text \<open>With a window that does not advance, a loop entered at or before 0 never ends.\<close>

lemma chunk_loop_stuck:
  assumes r: "chunk_loop text chunk_size overlap start chunks = Some r"
  shows "\<not> (chunk_size \<le> overlap \<and> text \<noteq> [] \<and> start \<le> 0)"
proof (rule chunk_loop.raw_induct
    [where P = "\<lambda>tx w ov st chs res. \<not> (w \<le> ov \<and> tx \<noteq> [] \<and> st \<le> 0)", OF _ r])
  fix f :: "pystr \<Rightarrow> int \<Rightarrow> int \<Rightarrow> int \<Rightarrow> pystr list \<Rightarrow> pystr list option"
  fix tx w ov st chs res
  assume ih: "\<And>w ov st chs b y. f w ov st chs b = Some y \<Longrightarrow> \<not> (ov \<le> st \<and> w \<noteq> [] \<and> chs \<le> 0)"
    and eq: "(if st < int (length tx)
        then f tx w ov (st + w - ov) (chs @ [py_slice tx st (st + w)])
        else Some chs) = Some res"
  show "\<not> (w \<le> ov \<and> tx \<noteq> [] \<and> st \<le> 0)"
  proof
    assume h: "w \<le> ov \<and> tx \<noteq> [] \<and> st \<le> 0"
    then have "st < int (length tx)" by (cases tx) auto
    with eq have "f tx w ov (st + w - ov) (chs @ [py_slice tx st (st + w)]) = Some res"
      by simp
    from ih[OF this] h show False by simp
  qed
qed

lemma strip_Nil: "strip [] = []"
  by (simp add: strip_def)

lemma strip_length: "length (strip s) \<le> length s"
  unfolding strip_def
  by (metis length_dropWhile_le length_rev order_trans)

lemma strip_hd: "strip s \<noteq> [] \<Longrightarrow> \<not> py_isspace (hd (strip s))"
proof -
  assume a: "strip s \<noteq> []"
  let ?d = "dropWhile py_isspace s"
  let ?e = "dropWhile py_isspace (rev ?d)"
  from a have e: "?e \<noteq> []" by (simp add: strip_def)
  then have "rev ?d \<noteq> []" by (metis dropWhile.simps(1))
  then have d: "?d \<noteq> []" by simp
  have "hd (strip s) = last ?e" by (simp add: strip_def hd_rev)
  also have "\<dots> = last (rev ?d)" using e
    by (metis last_appendR takeWhile_dropWhile_id)
  also have "\<dots> = hd ?d" using d by (simp add: last_rev)
  finally show ?thesis using d hd_dropWhile by metis
qed

lemma strip_last: "strip s \<noteq> [] \<Longrightarrow> \<not> py_isspace (last (strip s))"
proof -
  assume a: "strip s \<noteq> []"
  let ?e = "dropWhile py_isspace (rev (dropWhile py_isspace s))"
  from a have e: "?e \<noteq> []" by (simp add: strip_def)
  have "last (strip s) = hd ?e" by (simp add: strip_def last_rev)
  then show ?thesis using e hd_dropWhile by metis
qed


lemma slice_index_le: "slice_index n i \<le> n"
proof (cases "i < 0")
  case True
  then have "max 0 (i + int n) \<le> int n" by simp
  with True show ?thesis by (simp add: slice_index_def nat_le_iff)
next
  case False
  then show ?thesis by (simp add: slice_index_def)
qed

lemma py_slice_replicate:
  "py_slice (replicate n c) i j = replicate (slice_index n j - slice_index n i) c"
proof -
  have "slice_index n j - slice_index n i \<le> n - slice_index n i"
    by (rule diff_le_mono) (rule slice_index_le)
  then show ?thesis by (simp add: py_slice_def min_absorb1)
qed

lemma dropWhile_replicate: "\<not> P c \<Longrightarrow> dropWhile P (replicate n c) = replicate n c"
  by (cases n) simp_all

lemma strip_replicate: "\<not> py_isspace c \<Longrightarrow> strip (replicate n c) = replicate n c"
  by (simp add: strip_def dropWhile_replicate)

text \<open>A non-empty text that the first step of the window covers is the only chunk.\<close>

lemma chunk_loop_single:
  assumes "0 \<le> overlap" "overlap < chunk_size"
    and "int (length text) \<le> chunk_size - overlap" and "text \<noteq> []"
  shows "chunk_loop text chunk_size overlap 0 [] = Some [text]"
proof -
  from assms(4) have "0 < int (length text)" by simp
  then have "chunk_loop text chunk_size overlap 0 [] =
      chunk_loop text chunk_size overlap (chunk_size - overlap) [py_slice text 0 chunk_size]"
    using chunk_loop_step[of 0 "text" chunk_size overlap "[]"] by simp
  also have "\<dots> = Some [py_slice text 0 chunk_size]"
    using assms by (simp add: chunk_loop_exit)
  also have "py_slice text 0 chunk_size = text"
    using assms by (simp add: py_slice_whole)
  finally show ?thesis .
qed

lemma chunk_text_default_total: "\<exists>cs. chunk_text text 400 50 = Some cs"
proof -
  from chunk_loop_total[of 50 400 "text" 0 "[]"] obtain r where
    "chunk_loop text 400 50 0 [] = Some r" by auto
  then show ?thesis by (simp add: chunk_text_def)
qed

text \<open>
  C1, as amended. For every text whose length is at most the window size minus the
  overlap (350 with the defaults), with 0 \<le> overlap < chunk_size, chunk_text returns a
  single chunk equal to the whole trimmed text, or the empty sequence if the trimmed text
  is empty.
\<close>

theorem chunk_text_short:
  assumes "0 \<le> overlap" "overlap < chunk_size"
    and "int (length text) \<le> chunk_size - overlap"
  shows "chunk_text text chunk_size overlap = Some (if strip text = [] then [] else [strip text])"
proof (cases "text = []")
  case True
  then show ?thesis by (simp add: chunk_text_def chunk_loop_exit strip_Nil)
next
  case False
  from chunk_loop_single[OF assms False] show ?thesis by (simp add: chunk_text_def)
qed

theorem chunk_text_short_witness:
  "chunk_text (lit ''  hi  '') 400 50 = Some [lit ''hi''] \<and>
   chunk_text (lit ''    '') 400 50 = Some []"
  using chunk_text_short[of 50 400 "lit ''  hi  ''"] chunk_text_short[of 50 400 "lit ''    ''"]
  by (simp add: lit_def strip_def py_isspace_def)


text \<open>
  C1, as stated, fails: a text of 400 characters is no longer than the default window,
  and the loop returns two chunks for it, the text and its last 50 characters.
\<close>

theorem chunk_text_short_counterexample:
  "int (length (replicate 400 (97::nat))) \<le> 400 \<and>
   strip (replicate 400 97) = replicate 400 97 \<and>
   chunk_text (replicate 400 97) 400 50 = Some [replicate 400 97, replicate 50 97]"
proof -
  let ?t = "replicate 400 (97::nat)"
  have s: "\<And>n. strip (replicate n 97) = replicate n 97"
    by (rule strip_replicate) (simp add: py_isspace_def)
  have w: "py_slice ?t 0 400 = ?t"
    by (rule py_slice_whole) simp
  have v: "py_slice ?t 350 750 = replicate 50 97"
    by (simp add: py_slice_replicate slice_index_def)
  have "chunk_loop ?t 400 50 0 [] = chunk_loop ?t 400 50 350 [?t]"
    using chunk_loop_step[of 0 ?t 400 50 "[]"] w by simp
  also have "\<dots> = chunk_loop ?t 400 50 700 [?t, replicate 50 97]"
    using chunk_loop_step[of 350 ?t 400 50 "[?t]"] v by simp
  also have "\<dots> = Some [?t, replicate 50 97]"
    by (rule chunk_loop_exit) simp
  finally show ?thesis by (simp add: chunk_text_def s)
qed

text \<open>
  C3. For every text and every 0 \<le> overlap < chunk_size, chunk_text terminates. The
  loop has no guard for overlap \<ge> chunk_size: there the window does not advance, and
  on a non-empty text the loop never ends.
\<close>

theorem chunk_text_terminates:
  "(0 \<le> overlap \<and> overlap < chunk_size \<longrightarrow>
      (\<exists>cs. chunk_text text chunk_size overlap = Some cs)) \<and>
   (chunk_size \<le> overlap \<and> text \<noteq> [] \<longrightarrow>
      chunk_text text chunk_size overlap = None)"
proof (intro conjI impI)
  assume "0 \<le> overlap \<and> overlap < chunk_size"
  then have "overlap < chunk_size" by simp
  from chunk_loop_total[OF this, of "text" 0 "[]"] obtain r where
    "chunk_loop text chunk_size overlap 0 [] = Some r" by blast
  then show "\<exists>cs. chunk_text text chunk_size overlap = Some cs"
    by (simp add: chunk_text_def)
next
  assume h: "chunk_size \<le> overlap \<and> text \<noteq> []"
  have "chunk_loop text chunk_size overlap 0 [] = None"
  proof (cases "chunk_loop text chunk_size overlap 0 []")
    case None
    then show ?thesis .
  next
    case (Some r)
    from chunk_loop_stuck[OF this] h show ?thesis by simp
  qed
  then show "chunk_text text chunk_size overlap = None"
    by (simp add: chunk_text_def)
qed

theorem chunk_text_terminates_witness:
  "(\<exists>cs. chunk_text (lit ''abc'') 2 1 = Some cs) \<and> chunk_text (lit ''abc'') 2 2 = None"
  using chunk_text_terminates[of 1 2 "lit ''abc''"] chunk_text_terminates[of 2 2 "lit ''abc''"]
  by (simp add: lit_def)

text \<open>
  C4. For every text and every chunk_size > overlap \<ge> 0, chunk_text returns, and
  every chunk it returns has length at most chunk_size, is non-empty, and neither
  starts nor ends with whitespace. Chunking the empty string yields the empty sequence.
\<close>

theorem chunk_text_chunks:
  "chunk_text [] chunk_size overlap = Some [] \<and>
   (0 \<le> overlap \<and> overlap < chunk_size \<longrightarrow>
      (\<exists>cs. chunk_text text chunk_size overlap = Some cs \<and>
         (\<forall>c \<in> set cs. int (length c) \<le> chunk_size \<and> c \<noteq> [] \<and>
            \<not> py_isspace (hd c) \<and> \<not> py_isspace (last c))))"
proof (intro conjI impI)
  show "chunk_text [] chunk_size overlap = Some []"
    by (simp add: chunk_text_def chunk_loop_exit)
next
  assume h: "0 \<le> overlap \<and> overlap < chunk_size"
  then have lt: "overlap < chunk_size" and w: "0 \<le> chunk_size" by simp_all
  from chunk_loop_total[OF lt, of "text" 0 "[]"] obtain r where
    r: "chunk_loop text chunk_size overlap 0 [] = Some r"
      "set r \<subseteq> {py_slice text s (s + chunk_size) | s. 0 \<le> s}"
    by auto
  let ?cs = "map strip (filter (\<lambda>c. strip c \<noteq> []) r)"
  have "chunk_text text chunk_size overlap = Some ?cs"
    using r(1) by (simp add: chunk_text_def)
  moreover have "\<forall>c \<in> set ?cs. int (length c) \<le> chunk_size \<and> c \<noteq> [] \<and>
      \<not> py_isspace (hd c) \<and> \<not> py_isspace (last c)"
  proof
    fix c assume "c \<in> set ?cs"
    then obtain x where x: "x \<in> set r" "strip x \<noteq> []" "c = strip x" by auto
    from x(1) r(2) obtain s where s: "0 \<le> s" "x = py_slice text s (s + chunk_size)"
      by auto
    have "int (length x) \<le> chunk_size"
      unfolding s(2) using s(1) w by (rule py_slice_length)
    moreover have "length c \<le> length x" unfolding x(3) by (rule strip_length)
    ultimately have "int (length c) \<le> chunk_size" by linarith
    with x(2,3) strip_hd[of x] strip_last[of x]
    show "int (length c) \<le> chunk_size \<and> c \<noteq> [] \<and>
        \<not> py_isspace (hd c) \<and> \<not> py_isspace (last c)" by simp
  qed
  ultimately show "\<exists>cs. chunk_text text chunk_size overlap = Some cs \<and>
      (\<forall>c \<in> set cs. int (length c) \<le> chunk_size \<and> c \<noteq> [] \<and>
         \<not> py_isspace (hd c) \<and> \<not> py_isspace (last c))" by blast
qed

theorem chunk_text_chunks_witness:
  "chunk_text [] 4 1 = Some [] \<and>
   (\<exists>cs. chunk_text (lit ''  hello world  '') 4 1 = Some cs \<and>
      (\<forall>c \<in> set cs. int (length c) \<le> 4 \<and> c \<noteq> [] \<and>
         \<not> py_isspace (hd c) \<and> \<not> py_isspace (last c)))"
  using chunk_text_chunks[of 4 1 "lit ''  hello world  ''"]
  by simp

section \<open>Properties of retrieval\<close>

lemma argsort_ok_perm:
  assumes "argsort_ok f sims"
  shows "distinct (f sims)" and "set (f sims) = {0..<length sims}"
    and "length (f sims) = length sims"
proof -
  from assms have m: "mset (f sims) = mset [0..<length sims]"
    by (simp add: argsort_ok_def)
  from mset_eq_imp_distinct_iff[OF m] show "distinct (f sims)" by simp
  from mset_eq_setD[OF m] show "set (f sims) = {0..<length sims}" by simp
  from mset_eq_length[OF m] show "length (f sims) = length sims" by simp
qed

lemma stable_argsort_ok: "argsort_ok stable_argsort sims"
  by (simp add: argsort_ok_def stable_argsort_def)

lemma py_slice_from_last: "1 \<le> k \<Longrightarrow> py_slice_from xs (- k) = drop (length xs - nat k) xs"
proof -
  assume k: "1 \<le> k"
  then have "nat (max 0 (- k + int (length xs))) = length xs - nat k"
    by (simp add: max_def) linarith
  with k show ?thesis
    by (simp add: py_slice_from_def slice_index_def)
qed

lemma py_slice_from_zero: "py_slice_from xs (- 0) = xs"
  by (simp add: py_slice_from_def slice_index_def)

text \<open>
  On a populated index whose rows pair with its texts, \<open>search\<close> raises nothing: it
  returns the texts at the last positions of the argsort, last first.
\<close>

lemma search_populated:
  assumes "embeddings st = Some emb" "texts st \<noteq> []" "length emb = length (texts st)"
    and "sims = map (cosine_similarity env (encode env query)) emb"
    and "argsort_ok (argsort env) sims"
  shows "search env st query k =
    Inr (map (\<lambda>i. texts st ! i) (rev (py_slice_from (argsort env sims) (- k))))"
proof -
  have "set (py_slice_from (argsort env sims) (- k)) \<subseteq> set (argsort env sims)"
    unfolding py_slice_from_def by (rule set_drop_subset)
  also have "\<dots> = {0..<length (texts st)}"
    using argsort_ok_perm(2)[OF assms(5)] assms(3,4) by simp
  finally have "list_all (\<lambda>i. i < length (texts st))
      (rev (py_slice_from (argsort env sims) (- k)))"
    by (auto simp add: list_all_iff)
  with assms(1,2,4) show ?thesis by (simp add: search_def Let_def)
qed


text \<open>
  C2, as amended. For every populated index whose rows pair with its texts, every query
  and every k \<ge> 1, search returns the texts of the min(k, n) rows with the highest
  similarity to the query, in descending-similarity order: the last positions of the
  ascending argsort, last first. Rows of equal similarity come in the reverse of the
  order the argsort gives them, not in the chunks' original order.
\<close>

theorem search_top_k:
  assumes "embeddings st = Some emb" "texts st \<noteq> []" "length emb = length (texts st)"
    and "sims = map (cosine_similarity env (encode env query)) emb"
    and "argsort_ok (argsort env) sims" and "1 \<le> k"
  shows "\<exists>idx. search env st query k = Inr (map (\<lambda>i. texts st ! i) idx) \<and>
      idx = rev (drop (length sims - nat k) (argsort env sims)) \<and>
      length idx = min (nat k) (length (texts st)) \<and> distinct idx \<and>
      set idx \<subseteq> {0..<length (texts st)} \<and>
      sorted (rev (map (\<lambda>i. sims ! i) idx)) \<and>
      (\<forall>j < length (texts st). j \<notin> set idx \<longrightarrow> (\<forall>i \<in> set idx. sims ! j \<le> sims ! i))"
proof -
  let ?p = "argsort env sims"
  let ?m = "length sims - nat k"
  let ?idx = "rev (drop ?m ?p)"
  let ?f = "\<lambda>i. sims ! i"
  have n: "length sims = length (texts st)" using assms(3,4) by simp
  note perm = argsort_ok_perm[OF assms(5)]
  have srt: "sorted (map ?f ?p)" using assms(5) by (simp add: argsort_ok_def)
  have "length ?p - nat k = ?m" using perm(3) by simp
  then have "search env st query k = Inr (map (\<lambda>i. texts st ! i) ?idx)"
    using search_populated[OF assms(1-5), of k] py_slice_from_last[OF assms(6), of ?p]
    by simp
  moreover have "length ?idx = min (nat k) (length (texts st))"
    using perm(3) n by simp
  moreover have "distinct ?idx" using perm(1) by simp
  moreover have sub: "set ?idx \<subseteq> {0..<length (texts st)}"
    using set_drop_subset[of ?m ?p] perm(2) n by simp
  moreover have "sorted (rev (map ?f ?idx))"
  proof -
    have "sorted (drop ?m (map ?f ?p))" using srt by (rule sorted_wrt_drop)
    then show ?thesis by (simp add: rev_map drop_map)
  qed
  moreover have "\<forall>j < length (texts st). j \<notin> set ?idx \<longrightarrow> (\<forall>i \<in> set ?idx. sims ! j \<le> sims ! i)"
  proof (intro allI impI ballI)
    fix j i assume j: "j < length (texts st)" "j \<notin> set ?idx" and i: "i \<in> set ?idx"
    have "set ?p = set (take ?m ?p) \<union> set (drop ?m ?p)"
      by (metis append_take_drop_id set_append)
    moreover from j(1) perm(2) n have "j \<in> set ?p" by simp
    moreover from j(2) have "j \<notin> set (drop ?m ?p)" by simp
    ultimately have jt: "j \<in> set (take ?m ?p)" by blast
    from i have idr: "i \<in> set (drop ?m ?p)" by simp
    have "sorted (map ?f (take ?m ?p) @ map ?f (drop ?m ?p))"
      using srt by (simp flip: map_append)
    then have "\<forall>x \<in> set (map ?f (take ?m ?p)). \<forall>y \<in> set (map ?f (drop ?m ?p)). x \<le> y"
      by (simp add: sorted_append)
    with jt idr show "sims ! j \<le> sims ! i" by auto
  qed
  ultimately show ?thesis by blast
qed

lemma stable_argsort_sample: "stable_argsort [- 1, - 1, 0 :: int] = [0, 1, 2]"
  by code_simp

theorem search_top_k_witness:
  "search sample_env \<lparr>texts = [lit ''a'', lit ''bbb'', lit ''cc''], embeddings = Some [1, 3, 2]\<rparr>
     (lit ''xx'') 2 = Inr [lit ''cc'', lit ''bbb'']"
  using search_top_k[of "\<lparr>texts = [lit ''a'', lit ''bbb'', lit ''cc''], embeddings = Some [1, 3, 2]\<rparr>"
      "[1, 3, 2]" "[- 1, - 1, 0]" sample_env "lit ''xx''" 2]
    stable_argsort_ok[of "[- 1, - 1, 0 :: int]"]
  by (simp add: sample_env_def stable_argsort_sample lit_def)

text \<open>
  C2, as stated, fails on an index of two chunks of equal similarity: with k = 0 search
  returns both texts, not none, and with k = 2 under a stable argsort it returns the
  later chunk first.
\<close>

theorem search_top_k_counterexample:
  "search sample_env (snd (build_index sample_env [lit ''ab'', lit ''cd''] init_state)) (lit ''q'') 0
     = Inr [lit ''cd'', lit ''ab''] \<and>
   search sample_env (snd (build_index sample_env [lit ''ab'', lit ''cd''] init_state)) (lit ''q'') 2
     = Inr [lit ''cd'', lit ''ab'']"
  by code_simp

text \<open>
  C10. For every populated index whose rows pair with its texts and every query, search
  with k = 0 returns all the indexed texts, in descending-similarity order: the slice
  \<open>[-0:]\<close> is the whole argsort.
\<close>

theorem search_zero_k:
  assumes "embeddings st = Some emb" "texts st \<noteq> []" "length emb = length (texts st)"
    and "sims = map (cosine_similarity env (encode env query)) emb"
    and "argsort_ok (argsort env) sims"
  shows "\<exists>idx. search env st query 0 = Inr (map (\<lambda>i. texts st ! i) idx) \<and>
      idx = rev (argsort env sims) \<and>
      length idx = length (texts st) \<and>
      mset (map (\<lambda>i. texts st ! i) idx) = mset (texts st) \<and>
      sorted (rev (map (\<lambda>i. sims ! i) idx))"
proof -
  let ?p = "argsort env sims"
  let ?idx = "rev ?p"
  have n: "length sims = length (texts st)" using assms(3,4) by simp
  note perm = argsort_ok_perm[OF assms(5)]
  have "search env st query 0 = Inr (map (\<lambda>i. texts st ! i) ?idx)"
    using search_populated[OF assms(1-5), of 0] py_slice_from_zero[of ?p] by simp
  moreover have "length ?idx = length (texts st)" using perm(3) n by simp
  moreover have "mset (map (\<lambda>i. texts st ! i) ?idx) = mset (texts st)"
  proof -
    have "mset ?idx = mset [0..<length (texts st)]"
      using assms(5) n by (simp add: argsort_ok_def)
    then have "mset (map (\<lambda>i. texts st ! i) ?idx) =
        mset (map (\<lambda>i. texts st ! i) [0..<length (texts st)])"
      by (simp only: mset_map)
    then show ?thesis by (simp only: map_nth)
  qed
  moreover have "sorted (rev (map (\<lambda>i. sims ! i) ?idx))"
    using assms(5) by (simp add: argsort_ok_def rev_map)
  ultimately show ?thesis by blast
qed

theorem search_zero_k_witness:
  "search sample_env \<lparr>texts = [lit ''a'', lit ''bbb'', lit ''cc''], embeddings = Some [1, 3, 2]\<rparr>
     (lit ''xx'') 0 = Inr [lit ''cc'', lit ''bbb'', lit ''a'']"
  using search_zero_k[of "\<lparr>texts = [lit ''a'', lit ''bbb'', lit ''cc''], embeddings = Some [1, 3, 2]\<rparr>"
      "[1, 3, 2]" "[- 1, - 1, 0]" sample_env "lit ''xx''"]
    stable_argsort_ok[of "[- 1, - 1, 0 :: int]"]
  by (simp add: sample_env_def stable_argsort_sample lit_def)

text \<open>
  C5. On an empty index (no embeddings yet, or no texts) search returns the empty
  sequence for every query and every k, and ask returns the fixed message
  "No documents indexed yet. Upload PDFs first." and sends nothing to the answer
  generator's endpoint.
\<close>

theorem search_empty_index:
  assumes "embeddings st = None \<or> texts st = []"
  shows "search env st query k = Inr [] \<and>
     ask env st query = (lit ''No documents indexed yet. Upload PDFs first.'', [])"
proof -
  from assms have "\<And>k. search env st query k = Inr []"
    by (auto simp add: search_def split: option.splits)
  then show ?thesis by (simp add: ask_def no_documents_message_def)
qed

theorem search_empty_index_witness:
  "search sample_env init_state (lit ''why?'') 5 = Inr [] \<and>
   ask sample_env init_state (lit ''why?'') =
     (lit ''No documents indexed yet. Upload PDFs first.'', [])"
  using search_empty_index[of init_state sample_env "lit ''why?''" 5]
  by (simp add: init_state_def)

section \<open>Properties of the handlers\<close>

lemma chunk_loop_replicate_step:
  "start < int n \<Longrightarrow>
   chunk_loop (replicate n c) chunk_size overlap start chunks =
   chunk_loop (replicate n c) chunk_size overlap (start + chunk_size - overlap)
     (chunks @ [replicate (slice_index n (start + chunk_size) - slice_index n start) c])"
  using chunk_loop_step[of start "replicate n c" chunk_size overlap chunks]
  by (simp add: py_slice_replicate)

lemma read_all_single: "read_all [Pdf [Some t]] [] = Inr [t]"
  by (simp add: read_pdf_def)

lemma indexed_message_not_error: "lit ''Error: '' @ e \<noteq> indexed_message n"
  by (simp add: lit_def indexed_message_def)

lemma indexed_message_not_no_text: "no_text_message \<noteq> indexed_message n"
  by (simp add: lit_def indexed_message_def no_text_message_def)

lemma build_index_returns:
  "encode_raises env chunks = None \<Longrightarrow>
   build_index env chunks st =
     (None, st\<lparr>texts := chunks, embeddings := Some (map (encode env) chunks)\<rparr>)"
  by (simp add: build_index_def)

lemma build_index_raises:
  "encode_raises env chunks = Some e \<Longrightarrow>
   build_index env chunks st = (Some e, st\<lparr>texts := chunks\<rparr>)"
  by (simp add: build_index_def)

text \<open>
  An upload that yields chunks, with an embedder that returns on them, builds the index
  from them, whatever it held.
\<close>

lemma upload_builds:
  assumes "read_all files [] = Inr all_text"
    and "chunk_text (py_join [10] all_text) 400 50 = Some chunks" and "chunks \<noteq> []"
    and "encode_raises env chunks = None"
  shows "upload env st files =
    Some (indexed_message (length chunks),
          st\<lparr>texts := chunks, embeddings := Some (map (encode env) chunks)\<rparr>)"
  using assms by (simp add: upload_def build_index_returns)

text \<open>
  An upload that yields chunks, with an embedder that raises on them, is answered with
  the error and leaves the new texts over the old rows.
\<close>

lemma upload_torn:
  assumes "read_all files [] = Inr all_text"
    and "chunk_text (py_join [10] all_text) 400 50 = Some chunks" and "chunks \<noteq> []"
    and "encode_raises env chunks = Some e"
  shows "upload env st files = Some (lit ''Error: '' @ e, st\<lparr>texts := chunks\<rparr>)"
  using assms by (simp add: upload_def build_index_raises)

text \<open>An upload answered by "Indexed n chunks." has built the index from its chunks.\<close>

lemma upload_indexed:
  assumes "upload env st files = Some (indexed_message n, st')"
  shows "\<exists>chunks. chunks \<noteq> [] \<and>
     st' = st\<lparr>texts := chunks, embeddings := Some (map (encode env) chunks)\<rparr>"
proof (cases "read_all files []")
  case (Inl e)
  with assms show ?thesis
    by (simp add: upload_def indexed_message_not_error)
next
  case (Inr all_text)
  from chunk_text_default_total[of "py_join [10] all_text"] obtain chunks where
    c: "chunk_text (py_join [10] all_text) 400 50 = Some chunks" by blast
  show ?thesis
  proof (cases "chunks = []")
    case True
    with assms Inr c show ?thesis
      by (simp add: upload_def indexed_message_not_no_text)
  next
    case False
    show ?thesis
    proof (cases "encode_raises env chunks")
      case None
      from upload_builds[OF Inr c False None, of st] assms False show ?thesis by auto
    next
      case (Some e)
      from upload_torn[OF Inr c False Some, of st] assms show ?thesis
        by (simp add: indexed_message_not_error[symmetric])
    qed
  qed
qed

text \<open>
  With an embedder that never raises, every upload returns and keeps the invariant of the
  index, and so does every run.
\<close>

lemma upload_inv:
  assumes "index_inv st" and "\<And>chunks. encode_raises env chunks = None"
  shows "\<exists>resp st'. upload env st files = Some (resp, st') \<and> index_inv st'"
proof (cases "read_all files []")
  case (Inl e)
  with assms(1) show ?thesis by (simp add: upload_def)
next
  case (Inr all_text)
  from chunk_text_default_total[of "py_join [10] all_text"] obtain chunks where
    "chunk_text (py_join [10] all_text) 400 50 = Some chunks" by blast
  with assms Inr show ?thesis
    by (simp add: upload_def build_index_returns index_inv_def)
qed

lemma run_inv:
  assumes "\<And>chunks. encode_raises env chunks = None"
  shows "index_inv st \<Longrightarrow> \<exists>st'. run env st reqs = Some st' \<and> index_inv st'"
proof (induction reqs arbitrary: st)
  case Nil
  then show ?case by simp
next
  case (Cons r reqs)
  show ?case
  proof (cases r)
    case (Upload files)
    from upload_inv[OF Cons.prems assms, of files] obtain resp st1 where
      u: "upload env st files = Some (resp, st1)" "index_inv st1" by blast
    from Cons.IH[OF u(2)] u(1) Upload show ?thesis by simp
  next
    case (Ask query)
    from Cons.IH[OF Cons.prems] Ask show ?thesis by simp
  qed
qed

lemma chunk_text_750:
  "chunk_text (replicate 750 97) 400 50 = Some [replicate 400 97, replicate 400 97, replicate 50 97]"
proof -
  have s: "\<And>n. strip (replicate n 97) = replicate n 97"
    by (rule strip_replicate) (simp add: py_isspace_def)
  have "chunk_loop (replicate 750 97) 400 50 0 [] =
      Some [replicate 400 97, replicate 400 97, replicate 50 97]"
    by (simp add: chunk_loop_replicate_step chunk_loop_exit slice_index_def)
  then show ?thesis by (simp add: chunk_text_def s)
qed

lemma chunk_text_401:
  "chunk_text (replicate 401 97) 400 50 = Some [replicate 400 97, replicate 51 97]"
proof -
  have s: "\<And>n. strip (replicate n 97) = replicate n 97"
    by (rule strip_replicate) (simp add: py_isspace_def)
  have "chunk_loop (replicate 401 97) 400 50 0 [] = Some [replicate 400 97, replicate 51 97]"
    by (simp add: chunk_loop_replicate_step chunk_loop_exit slice_index_def)
  then show ?thesis by (simp add: chunk_text_def s)
qed

lemma chunk_text_hello:
  "chunk_text (py_join [10] [lit ''hello world'']) 400 50 = Some [lit ''hello world'']"
proof -
  have "chunk_loop (lit ''hello world'') 400 50 0 [] = Some [lit ''hello world'']"
    by (rule chunk_loop_single) (simp_all add: lit_def)
  then show ?thesis
    by (simp add: chunk_text_def lit_def strip_def py_isspace_def)
qed

text \<open>
  C7. The invariant (as many stored texts as rows of the stored embeddings, unset
  embeddings counting as no rows) holds in the initial state, and the code breaks it:
  an upload on whose chunks the embedder raises is answered "Error: out of memory" and
  leaves the new texts over the old rows. After a first document of one chunk and a
  second of two chunks on which the embedder raises, the index holds two texts over
  one row; from the initial state the second document alone leaves two texts over no
  rows.
\<close>

theorem index_torn:
  "index_inv (init_state :: nat state) \<and>
   run flaky_env init_state
     [Upload [Pdf [Some (lit ''hello world'')]], Upload [Pdf [Some (replicate 401 97)]]]
     = Some \<lparr>texts = [replicate 400 97, replicate 51 97], embeddings = Some [11]\<rparr> \<and>
   \<not> index_inv \<lparr>texts = [replicate 400 97, replicate 51 97], embeddings = Some [11 :: nat]\<rparr> \<and>
   upload flaky_env init_state [Pdf [Some (replicate 401 97)]]
     = Some (lit ''Error: out of memory'',
             \<lparr>texts = [replicate 400 97, replicate 51 97], embeddings = None\<rparr>) \<and>
   \<not> index_inv \<lparr>texts = [replicate 400 97, replicate 51 97], embeddings = (None :: nat list option)\<rparr>"
proof -
  have cb: "chunk_text (py_join [10] [replicate 401 97]) 400 50 =
      Some [replicate 400 97, replicate 51 97]"
    by (simp add: chunk_text_401)
  have r1: "encode_raises flaky_env [lit ''hello world''] = None"
    by (simp add: flaky_env_def)
  have r2: "encode_raises flaky_env [replicate 400 97, replicate 51 97] = Some (lit ''out of memory'')"
    by (simp add: flaky_env_def)
  have u1: "upload flaky_env init_state [Pdf [Some (lit ''hello world'')]] =
      Some (indexed_message 1, \<lparr>texts = [lit ''hello world''], embeddings = Some [11]\<rparr>)"
    using upload_builds[OF read_all_single chunk_text_hello _ r1, of init_state]
    by (simp add: init_state_def flaky_env_def sample_env_def lit_def)
  have u2: "\<And>st :: nat state. upload flaky_env st [Pdf [Some (replicate 401 97)]] =
      Some (lit ''Error: out of memory'', st\<lparr>texts := [replicate 400 97, replicate 51 97]\<rparr>)"
    using upload_torn[OF read_all_single cb _ r2] by (simp add: lit_def)
  have "index_inv (init_state :: nat state)"
    by (simp add: index_inv_def init_state_def)
  moreover have "run flaky_env init_state
     [Upload [Pdf [Some (lit ''hello world'')]], Upload [Pdf [Some (replicate 401 97)]]]
     = Some \<lparr>texts = [replicate 400 97, replicate 51 97], embeddings = Some [11]\<rparr>"
    by (simp add: u1 u2)
  moreover have "upload flaky_env init_state [Pdf [Some (replicate 401 97)]]
     = Some (lit ''Error: out of memory'',
             \<lparr>texts = [replicate 400 97, replicate 51 97], embeddings = None\<rparr>)"
    by (simp add: u2 init_state_def)
  ultimately show ?thesis by (simp add: index_inv_def)
qed

text \<open>
  C6. An upload whose text yields chunks, with an embedder that returns on them, replaces
  the index, whatever it held before: afterwards the stored texts are exactly the chunks
  of this upload and the stored rows are their embeddings. After document A (3 chunks)
  and then document B (2 chunks) the index holds exactly the 2 chunks of B.
\<close>

theorem upload_replaces_index:
  assumes "read_all files [] = Inr all_text"
    and "chunk_text (py_join [10] all_text) 400 50 = Some chunks" and "chunks \<noteq> []"
    and "encode_raises env chunks = None"
  shows "\<exists>st'. upload env st files = Some (indexed_message (length chunks), st') \<and>
     texts st' = chunks \<and> embeddings st' = Some (map (encode env) chunks)"
  using upload_builds[OF assms, of st] by simp

theorem upload_replaces_index_witness:
  "\<exists>stA. upload sample_env init_state [Pdf [Some (replicate 750 97)]]
       = Some (indexed_message 3, stA) \<and>
     length (texts stA) = 3 \<and>
     (\<exists>stB. upload sample_env stA [Pdf [Some (replicate 401 97)]]
         = Some (indexed_message 2, stB) \<and>
       texts stB = [replicate 400 97, replicate 51 97] \<and>
       embeddings stB = Some [400, 51])"
proof -
  have ca: "chunk_text (py_join [10] [replicate 750 97]) 400 50 =
      Some [replicate 400 97, replicate 400 97, replicate 50 97]"
    by (simp add: chunk_text_750)
  have cb: "chunk_text (py_join [10] [replicate 401 97]) 400 50 =
      Some [replicate 400 97, replicate 51 97]"
    by (simp add: chunk_text_401)
  have r: "\<And>chunks. encode_raises sample_env chunks = None"
    by (simp add: sample_env_def)
  from upload_replaces_index[OF read_all_single ca _ r, of init_state]
  obtain stA where a:
    "upload sample_env init_state [Pdf [Some (replicate 750 97)]] = Some (indexed_message 3, stA)"
    "texts stA = [replicate 400 97, replicate 400 97, replicate 50 97]"
    by (auto simp add: numeral_3_eq_3)
  from upload_replaces_index[OF read_all_single cb _ r, of stA]
  have "\<exists>stB. upload sample_env stA [Pdf [Some (replicate 401 97)]]
         = Some (indexed_message 2, stB) \<and>
       texts stB = [replicate 400 97, replicate 51 97] \<and>
       embeddings stB = Some [400, 51]"
    by (simp add: sample_env_def numeral_2_eq_2)
  with a show ?thesis by simp
qed

text \<open>
  C8. An upload whose files are all read and whose accumulated text yields no chunk
  returns "No text extracted." and leaves the index, texts and embeddings, as it was.
\<close>

theorem upload_no_text:
  assumes "read_all files [] = Inr all_text"
    and "chunk_text (py_join [10] all_text) 400 50 = Some []"
  shows "upload env st files = Some (lit ''No text extracted.'', st)"
  using assms by (simp add: upload_def no_text_message_def)

theorem upload_no_text_witness:
  "upload sample_env (snd (build_index sample_env [lit ''old chunk''] init_state))
     [Pdf [None, Some (lit ''  '')]]
   = Some (lit ''No text extracted.'',
           snd (build_index sample_env [lit ''old chunk''] init_state))"
proof -
  have r: "read_all [Pdf [None, Some (lit ''  '')]] [] = Inr [[10, 32, 32]]"
    by (simp add: read_pdf_def lit_def)
  have "chunk_loop [10, 32, 32] 400 50 0 [] = Some [[10, 32, 32]]"
    by (rule chunk_loop_single) simp_all
  then have c: "chunk_text (py_join [10] [[10, 32, 32]]) 400 50 = Some []"
    by (simp add: chunk_text_def strip_def py_isspace_def)
  from upload_no_text[OF r c] show ?thesis .
qed

text \<open>
  C9. With no API credential configured (the variable unset or empty), generate_answer
  returns the fixed configuration-error string for every query and context list and
  sends no request; so an ask after an upload answered by "Indexed n chunks." returns
  that string.
\<close>

theorem ask_without_key:
  assumes "GROQ_API_KEY env = None \<or> GROQ_API_KEY env = Some []"
  shows "generate_answer env query contexts =
       (lit ''Error: GROK_API_KEY is not set in your .env file.'', []) \<and>
     (upload env st files = Some (indexed_message n, st') \<and>
      argsort_ok (argsort env)
        (map (cosine_similarity env (encode env query)) (map (encode env) (texts st'))) \<longrightarrow>
      ask env st' query = (lit ''Error: GROK_API_KEY is not set in your .env file.'', []))"
proof (intro conjI impI)
  have g: "\<And>ctx. generate_answer env query ctx = (no_key_message, [])"
    using assms by (auto simp add: generate_answer_def)
  then show "generate_answer env query contexts =
      (lit ''Error: GROK_API_KEY is not set in your .env file.'', [])"
    by (simp add: no_key_message_def)
  assume h: "upload env st files = Some (indexed_message n, st') \<and>
      argsort_ok (argsort env)
        (map (cosine_similarity env (encode env query)) (map (encode env) (texts st')))"
  let ?sims = "map (cosine_similarity env (encode env query)) (map (encode env) (texts st'))"
  from h upload_indexed obtain chunks where
    c: "chunks \<noteq> []"
      "st' = st\<lparr>texts := chunks, embeddings := Some (map (encode env) chunks)\<rparr>" by blast
  then have e: "embeddings st' = Some (map (encode env) (texts st'))" "texts st' \<noteq> []"
    by simp_all
  from h have ok: "argsort_ok (argsort env) ?sims" by simp
  have s: "search env st' query 3 =
      Inr (map (\<lambda>i. texts st' ! i) (rev (py_slice_from (argsort env ?sims) (- 3))))"
    using search_populated[OF e(1) e(2) _ _ ok, where k = 3] by simp
  have "length (argsort env ?sims) = length (texts st')"
    using argsort_ok_perm(3)[OF ok] by simp
  moreover from e(2) have "0 < length (texts st')" by simp
  ultimately have "length (argsort env ?sims) - 3 < length (argsort env ?sims)"
    by linarith
  then have "drop (length (argsort env ?sims) - 3) (argsort env ?sims) \<noteq> []"
    by simp
  then have "py_slice_from (argsort env ?sims) (- 3) \<noteq> []"
    using py_slice_from_last[of 3 "argsort env ?sims"] by simp
  with s g show "ask env st' query =
      (lit ''Error: GROK_API_KEY is not set in your .env file.'', [])"
    by (simp add: ask_def no_key_message_def)
qed

theorem ask_without_key_witness:
  "generate_answer sample_env (lit ''why?'') [lit ''hello world''] =
     (lit ''Error: GROK_API_KEY is not set in your .env file.'', []) \<and>
   upload sample_env init_state [Pdf [Some (lit ''hello world'')]] =
     Some (indexed_message 1, snd (build_index sample_env [lit ''hello world''] init_state)) \<and>
   ask sample_env (snd (build_index sample_env [lit ''hello world''] init_state)) (lit ''why?'') =
     (lit ''Error: GROK_API_KEY is not set in your .env file.'', [])"
proof -
  let ?st = "snd (build_index sample_env [lit ''hello world''] init_state)"
  have k: "GROQ_API_KEY sample_env = None \<or> GROQ_API_KEY sample_env = Some []"
    by (simp add: sample_env_def)
  have r: "encode_raises sample_env [lit ''hello world''] = None"
    by (simp add: sample_env_def)
  have u: "upload sample_env init_state [Pdf [Some (lit ''hello world'')]] =
      Some (indexed_message 1, ?st)"
    using upload_builds[OF read_all_single chunk_text_hello _ r, of init_state]
    by (simp add: build_index_returns[OF r])
  have ok: "argsort_ok (argsort sample_env)
      (map (cosine_similarity sample_env (encode sample_env (lit ''why?'')))
        (map (encode sample_env) (texts ?st)))"
    using stable_argsort_ok by (simp add: sample_env_def)
  from ask_without_key[OF k, of "lit ''why?''" "[lit ''hello world'']" init_state
      "[Pdf [Some (lit ''hello world'')]]" 1 ?st] u ok
  show ?thesis by simp
qed

end
